theory Spec2Isabelle
  imports Complex_Main
begin

section \<open>Numbers and dates of the host language\<close>

text \<open>
  The program is TypeScript. Its numbers are IEEE doubles; they are modelled here by the
  real numbers, so every statement below is about the exact value of the expressions the
  code evaluates, not about their rounding. A \<^verbatim>\<open>Date\<close> holds a time value: an integral
  number of milliseconds since 1970-01-01T00:00:00Z, or NaN (an invalid date).
\<close>

datatype jsdate = ValidDate int | InvalidDate

text \<open>
  \<^verbatim>\<open>a < b\<close> on two dates compares their time values; a comparison with NaN is false.
\<close>

fun date_lt :: "jsdate \<Rightarrow> jsdate \<Rightarrow> bool" where
  "date_lt (ValidDate a) (ValidDate b) = (a < b)"
| "date_lt _ _ = False"

text \<open>
  \<^verbatim>\<open>x === y\<close> on two numbers, \<open>None\<close> standing for NaN: NaN is equal to nothing, not
  even to itself.
\<close>

fun strictEq :: "int option \<Rightarrow> int option \<Rightarrow> bool" where
  "strictEq (Some a) (Some b) = (a = b)"
| "strictEq _ _ = False"

text \<open>
  The remainder operator \<^verbatim>\<open>n % d\<close> on finite numbers with \<open>d \<noteq> 0\<close>: \<open>n - d * q\<close> where
  \<open>q\<close> is the quotient \<open>n / d\<close> rounded towards zero, so the result has the sign of the
  dividend.
\<close>

definition js_trunc :: "real \<Rightarrow> int" where
  "js_trunc x = (if x < 0 then \<lceil>x\<rceil> else \<lfloor>x\<rfloor>)"

definition js_rem :: "real \<Rightarrow> real \<Rightarrow> real" where
  "js_rem n d = n - d * of_int (js_trunc (n / d))"

text \<open>
  What the program takes from its platform and from the SunCalc library, none of it part
  of the repository: the local time zone (\<open>localTime\<close> and \<open>utcTime\<close> convert a time
  value to local time and back, as in the language standard), the date parser
  (\<open>None\<close> when the string is not recognised, which gives NaN), the ISO printer of a
  valid date, and \<^verbatim>\<open>SunCalc.getTimes(date, lat, lng).sunrise\<close>.
\<close>

record Host =
  localTime :: "int \<Rightarrow> int"
  utcTime :: "int \<Rightarrow> int"
  dateParse :: "string \<Rightarrow> int option"
  toISO :: "int \<Rightarrow> string"
  sunriseOf :: "jsdate \<Rightarrow> real \<Rightarrow> real \<Rightarrow> jsdate"

text \<open>\<^verbatim>\<open>new Date(str)\<close>: never throws; an unrecognised string gives an invalid date.\<close>

definition newDate :: "Host \<Rightarrow> string \<Rightarrow> jsdate" where
  "newDate h str = (case dateParse h str of None \<Rightarrow> InvalidDate | Some t \<Rightarrow> ValidDate t)"

text \<open>\<^verbatim>\<open>d.toISOString()\<close>: throws a RangeError on an invalid date (\<open>None\<close> here).\<close>

definition toISOString :: "Host \<Rightarrow> jsdate \<Rightarrow> string option" where
  "toISOString h d = (case d of InvalidDate \<Rightarrow> None | ValidDate t \<Rightarrow> Some (toISO h t))"

text \<open>
  \<^verbatim>\<open>getHours\<close>, \<^verbatim>\<open>getMinutes\<close> and \<^verbatim>\<open>getSeconds\<close> read the local wall clock, and
  are NaN on an invalid date.
\<close>

definition getHours :: "Host \<Rightarrow> jsdate \<Rightarrow> int option" where
  "getHours h d =
    (case d of InvalidDate \<Rightarrow> None
     | ValidDate t \<Rightarrow> Some ((localTime h t div 3600000) mod 24))"

definition getMinutes :: "Host \<Rightarrow> jsdate \<Rightarrow> int option" where
  "getMinutes h d =
    (case d of InvalidDate \<Rightarrow> None
     | ValidDate t \<Rightarrow> Some ((localTime h t div 60000) mod 60))"

definition getSeconds :: "Host \<Rightarrow> jsdate \<Rightarrow> int option" where
  "getSeconds h d =
    (case d of InvalidDate \<Rightarrow> None
     | ValidDate t \<Rightarrow> Some ((localTime h t div 1000) mod 60))"

text \<open>
  \<^verbatim>\<open>const tomorrow = new Date(); tomorrow.setDate(tomorrow.getDate() + 1)\<close> at clock
  reading \<open>clock\<close>: one day later on the local calendar, at the same local time of day.
  A time value beyond the range of dates (8.64e15 ms either side of 1970) becomes NaN.
\<close>

definition tomorrowOf :: "Host \<Rightarrow> int \<Rightarrow> jsdate" where
  "tomorrowOf h clock =
    (let u = utcTime h (localTime h clock + 86400000)
     in if \<bar>u\<bar> \<le> 8640000000000000 then ValidDate u else InvalidDate)"


section \<open>Moon phase: services/celestialService.ts\<close>

text \<open>The enumeration \<^verbatim>\<open>MoonPhase\<close> of the program's types, with its eight members.\<close>

datatype MoonPhase =
  NewMoon | WaxingCrescent | FirstQuarter | WaxingGibbous
| FullMoon | WaningGibbous | ThirdQuarter | WaningCrescent

text \<open>
  \<^verbatim>\<open>MoonPhaseInfo\<close>, as \<^verbatim>\<open>getMoonPhase\<close> returns it (the optional illumination is
  added by the caller and plays no part here).
\<close>

record MoonPhaseInfo =
  phase :: MoonPhase
  age :: real
  fraction :: real

definition LUNAR_MONTH :: real where
  "LUNAR_MONTH = 29.530588853"

text \<open>The time value of \<^verbatim>\<open>new Date('2000-01-06T18:14:00Z')\<close>.\<close>

definition KNOWN_NEW_MOON :: int where
  "KNOWN_NEW_MOON = 947182440000"

text \<open>The argument is the time value of the (valid) date passed in.\<close>

definition daysSinceKnownNewMoon :: "int \<Rightarrow> real" where
  "daysSinceKnownNewMoon date =
    (let msSince = date - KNOWN_NEW_MOON in of_int msSince / (1000 * 60 * 60 * 24))"

text \<open>The chain of comparisons in \<^verbatim>\<open>getMoonPhase\<close>, in the order of the source.\<close>

definition phaseOfFraction :: "real \<Rightarrow> MoonPhase" where
  "phaseOfFraction fr =
    (if fr < 0.03 \<or> fr \<ge> 0.97 then NewMoon
     else if fr < 0.23 then WaxingCrescent
     else if fr < 0.27 then FirstQuarter
     else if fr < 0.48 then WaxingGibbous
     else if fr < 0.52 then FullMoon
     else if fr < 0.73 then WaningGibbous
     else if fr < 0.77 then ThirdQuarter
     else WaningCrescent)"

definition getMoonPhase :: "int \<Rightarrow> MoonPhaseInfo" where
  "getMoonPhase date =
    (let days = daysSinceKnownNewMoon date;
         a = js_rem days LUNAR_MONTH;
         fr = a / LUNAR_MONTH
     in \<lparr>phase = phaseOfFraction fr, age = a, fraction = fr\<rparr>)"


section \<open>The application component\<close>

record Location =
  latitude :: real
  longitude :: real

record Position =
  altitude :: real
  azimuth :: real

record MoonPosition = Position +
  parallacticAngle :: real

record CelestialInfo =
  sunrise :: jsdate
  sunset :: jsdate
  solarNoon :: jsdate
  moonrise :: "jsdate option"
  moonset :: "jsdate option"
  moonIllumination :: real
  sunPosition :: Position
  moonPosition :: MoonPosition

text \<open>
  The state the alarm and the dial depend on: four of the component's state variables,
  the browser's local storage, and the two module-level audio handles (\<open>True\<close> when the
  handle is not null).
\<close>

record App =
  location :: "Location option"
  celestialInfo :: "CelestialInfo option"
  alarmTime :: "jsdate option"
  isAlarmRinging :: bool
  localStorage :: "string \<rightharpoonup> string"
  audioContext :: bool
  oscillator :: bool

subsection \<open>Audio\<close>

text \<open>
  \<^verbatim>\<open>playAlarmSound\<close> creates the audio context when there is none, stops a running
  oscillator, and starts a new one. \<^verbatim>\<open>stopAlarmSound\<close> stops and drops the
  oscillator when there is one.
\<close>

definition playAlarmSound :: "App \<Rightarrow> App" where
  "playAlarmSound s = s\<lparr>audioContext := True, oscillator := True\<rparr>"

definition stopAlarmSound :: "App \<Rightarrow> App" where
  "stopAlarmSound s =
    (if oscillator s \<and> audioContext s then s\<lparr>oscillator := False\<rparr> else s)"

subsection \<open>Start-up\<close>

text \<open>
  The initialiser of \<^verbatim>\<open>alarmTime\<close>: \<^verbatim>\<open>savedAlarm ? new Date(savedAlarm) : null\<close>.
  An absent key gives null, and so does the empty string, which is falsy.
\<close>

definition initialAlarmTime :: "Host \<Rightarrow> (string \<rightharpoonup> string) \<Rightarrow> jsdate option" where
  "initialAlarmTime h store =
    (case store ''sunriseAlarm'' of
       None \<Rightarrow> None
     | Some savedAlarm \<Rightarrow> if savedAlarm \<noteq> [] then Some (newDate h savedAlarm) else None)"

definition initApp :: "Host \<Rightarrow> (string \<rightharpoonup> string) \<Rightarrow> App" where
  "initApp h store =
    \<lparr>location = None, celestialInfo = None, alarmTime = initialAlarmTime h store,
     isAlarmRinging = False, localStorage = store, audioContext = False,
     oscillator = False\<rparr>"

subsection \<open>The alarm\<close>

text \<open>
  The alarm effect, run with the current time \<open>now\<close> after a render in which the time,
  the alarm time or the ringing flag changed. \<open>timeMatches\<close> is the condition of its inner
  \<^verbatim>\<open>if\<close>: the same local hour and minute as the alarm time, at second 0.
\<close>

definition timeMatches :: "Host \<Rightarrow> jsdate \<Rightarrow> jsdate \<Rightarrow> bool" where
  "timeMatches h now a =
    (strictEq (getHours h now) (getHours h a)
     \<and> strictEq (getMinutes h now) (getMinutes h a)
     \<and> strictEq (getSeconds h now) (Some 0))"

definition alarmEffect :: "Host \<Rightarrow> jsdate \<Rightarrow> App \<Rightarrow> App" where
  "alarmEffect h now s =
    (case alarmTime s of
       None \<Rightarrow> s
     | Some a \<Rightarrow>
         if \<not> isAlarmRinging s then
           if timeMatches h now a
           then playAlarmSound (s\<lparr>isAlarmRinging := True\<rparr>)
           else s
         else s)"

text \<open>
  An event handler either returns or throws. When it throws, the state updates it
  requested before the throw are still applied, so both outcomes carry a state.
\<close>

datatype error = RangeError | TypeError

type_synonym outcome = "(error \<times> App) + App"

text \<open>
  \<^verbatim>\<open>setSunriseAlarm\<close>, called when the clock reads \<open>clock\<close>. The two readings of the
  clock inside one call are taken to be the same instant. \<^verbatim>\<open>location!\<close> is a
  dereference of null when no location is known; \<^verbatim>\<open>toISOString\<close> throws on an
  invalid date, after the alarm time has been set.
\<close>

definition persistAlarm :: "Host \<Rightarrow> jsdate \<Rightarrow> App \<Rightarrow> outcome" where
  "persistAlarm h d s =
    (case toISOString h d of
       None \<Rightarrow> Inl (RangeError, s\<lparr>alarmTime := Some d\<rparr>)
     | Some str \<Rightarrow>
         Inr (s\<lparr>alarmTime := Some d,
                localStorage := (localStorage s)(''sunriseAlarm'' \<mapsto> str)\<rparr>))"

definition setSunriseAlarm :: "Host \<Rightarrow> int \<Rightarrow> App \<Rightarrow> outcome" where
  "setSunriseAlarm h clock s =
    (case celestialInfo s of
       None \<Rightarrow> Inr s
     | Some ci \<Rightarrow>
         let alarmDate = sunrise ci in
         if date_lt alarmDate (ValidDate clock) then
           (case location s of
              None \<Rightarrow> Inl (TypeError, s)
            | Some loc \<Rightarrow>
                persistAlarm h
                  (sunriseOf h (tomorrowOf h clock) (latitude loc) (longitude loc)) s)
         else persistAlarm h alarmDate s)"

definition clearAlarm :: "App \<Rightarrow> App" where
  "clearAlarm s =
    s\<lparr>alarmTime := None, localStorage := (localStorage s)(''sunriseAlarm'' := None)\<rparr>"

definition dismissAlarm :: "Host \<Rightarrow> int \<Rightarrow> App \<Rightarrow> outcome" where
  "dismissAlarm h clock s =
    setSunriseAlarm h clock (stopAlarmSound (s\<lparr>isAlarmRinging := False\<rparr>))"

fun settle :: "outcome \<Rightarrow> App" where
  "settle (Inr s) = s"
| "settle (Inl (e, s)) = s"

subsection \<open>The alarm as a state machine\<close>

text \<open>
  The three alarm states of the design, read off the component's state: ringing when the
  flag is set, otherwise armed with the stored target, or unset when there is none.
\<close>

datatype AlarmState = Unset | Armed jsdate | Ringing

definition alarmState :: "App \<Rightarrow> AlarmState" where
  "alarmState s =
    (if isAlarmRinging s then Ringing
     else case alarmTime s of None \<Rightarrow> Unset | Some t \<Rightarrow> Armed t)"

text \<open>
  What can happen to the component: the clock ticks (the time changes and the alarm
  effect runs; a rerun of the effect for another reason is a tick with the same time),
  the location or a new snapshot of the sky arrives, and the three buttons.
\<close>

datatype Event =
  Tick jsdate
| Located Location
| Snapshot CelestialInfo
| SetSunriseAlarm int
| ClearAlarm
| DismissAlarm int

fun step :: "Host \<Rightarrow> App \<Rightarrow> Event \<Rightarrow> App" where
  "step h s (Tick now) = alarmEffect h now s"
| "step h s (Located loc) = s\<lparr>location := Some loc\<rparr>"
| "step h s (Snapshot ci) = s\<lparr>celestialInfo := Some ci\<rparr>"
| "step h s (SetSunriseAlarm clock) = settle (setSunriseAlarm h clock s)"
| "step h s ClearAlarm = clearAlarm s"
| "step h s (DismissAlarm clock) = settle (dismissAlarm h clock s)"

fun run :: "Host \<Rightarrow> App \<Rightarrow> Event list \<Rightarrow> App" where
  "run h s [] = s"
| "run h s (e # es) = run h (step h s e) es"

text \<open>An event makes the alarm ring when it is a tick on which the effect starts the tone.\<close>

fun fires :: "Host \<Rightarrow> App \<Rightarrow> Event \<Rightarrow> bool" where
  "fires h s (Tick now) = (\<not> isAlarmRinging s \<and> isAlarmRinging (alarmEffect h now s))"
| "fires h s _ = False"

fun ringCount :: "Host \<Rightarrow> App \<Rightarrow> Event list \<Rightarrow> nat" where
  "ringCount h s [] = 0"
| "ringCount h s (e # es) = (if fires h s e then 1 else 0) + ringCount h (step h s e) es"

fun isDismiss :: "Event \<Rightarrow> bool" where
  "isDismiss (DismissAlarm clock) = True"
| "isDismiss _ = False"

subsection \<open>Placing the bodies on the dial, and the sky\<close>

definition sunAzimuthDegrees :: "App \<Rightarrow> real" where
  "sunAzimuthDegrees s =
    (case celestialInfo s of Some ci \<Rightarrow> azimuth (sunPosition ci) * (180 / pi) | None \<Rightarrow> 0)"

definition sunAngle :: "App \<Rightarrow> real" where
  "sunAngle s = sunAzimuthDegrees s + 180"

definition sunAltitudeOffset :: "App \<Rightarrow> real" where
  "sunAltitudeOffset s =
    (case celestialInfo s of
       Some ci \<Rightarrow> (1 - sin (altitude (sunPosition ci))) * 50
     | None \<Rightarrow> 50)"

definition moonAzimuthDegrees :: "App \<Rightarrow> real" where
  "moonAzimuthDegrees s =
    (case celestialInfo s of Some ci \<Rightarrow> azimuth (moonPosition ci) * (180 / pi) | None \<Rightarrow> 0)"

definition moonAngle :: "App \<Rightarrow> real" where
  "moonAngle s = moonAzimuthDegrees s + 180"

definition moonAltitudeOffset :: "App \<Rightarrow> real" where
  "moonAltitudeOffset s =
    (case celestialInfo s of
       Some ci \<Rightarrow> (1 - sin (altitude (moonPosition ci))) * 50
     | None \<Rightarrow> 50)"

definition getSkyGradient :: "real \<Rightarrow> string" where
  "getSkyGradient sunAltitude =
    (let altDegrees = sunAltitude * (180 / pi) in
     if altDegrees > 5 then ''from-sky-500 to-blue-700''
     else if altDegrees > -5 then ''from-indigo-300 via-orange-400 to-red-500''
     else ''from-gray-900 to-black'')"


section \<open>Example hosts and states\<close>

text \<open>
  A host in the UTC zone, for the examples. Its parser recognises one string and its ISO
  printer is right on the three instants the examples persist: 2024-05-18T00:40:00Z,
  2024-09-20T05:28:40Z and 2024-09-21T05:30:10Z. Its almanac puts the sunrise of 2024-09-20 at 05:28:40Z and each
  later sunrise 90 seconds later in the day, as in autumn.
\<close>

definition isoOf :: "int \<Rightarrow> string" where
  "isoOf t =
    (if t = 1726896610000 then ''2024-09-21T05:30:10.000Z''
     else if t = 1726810120000 then ''2024-09-20T05:28:40.000Z''
     else if t = 1715992800000 then ''2024-05-18T00:40:00.000Z''
     else [])"

definition autumnSunrise :: "jsdate \<Rightarrow> real \<Rightarrow> real \<Rightarrow> jsdate" where
  "autumnSunrise d lat lng =
    (case d of
       InvalidDate \<Rightarrow> InvalidDate
     | ValidDate t \<Rightarrow>
         ValidDate ((t div 86400000) * 86400000 + 19720000
                    + 90000 * (t div 86400000 - 19986)))"

definition utcHost :: Host where
  "utcHost =
    \<lparr>localTime = id, utcTime = id,
     dateParse = [''2024-09-21T05:30:10.000Z'' \<mapsto> 1726896610000],
     toISO = isoOf, sunriseOf = autumnSunrise\<rparr>"

text \<open>
  A host at a polar latitude in spring: the sun rises at 00:40Z up to 2024-05-18 and does
  not set after that, so the library reports an invalid date for every later sunrise.
\<close>

definition polarSunrise :: "jsdate \<Rightarrow> real \<Rightarrow> real \<Rightarrow> jsdate" where
  "polarSunrise d lat lng =
    (case d of
       InvalidDate \<Rightarrow> InvalidDate
     | ValidDate t \<Rightarrow>
         if t div 86400000 \<le> 19861 then ValidDate ((t div 86400000) * 86400000 + 2400000)
         else InvalidDate)"

definition polarHost :: Host where
  "polarHost = utcHost\<lparr>sunriseOf := polarSunrise\<rparr>"

text \<open>The fallback location of the program, and one beyond the polar circle.\<close>

definition london :: Location where
  "london = \<lparr>latitude = 51.5074, longitude = -0.1278\<rparr>"

definition tromso :: Location where
  "tromso = \<lparr>latitude = 69.6492, longitude = 18.9553\<rparr>"

text \<open>A snapshot of the sky with the given sunrise; the other fields play no part.\<close>

definition snapshotWith :: "jsdate \<Rightarrow> CelestialInfo" where
  "snapshotWith sr =
    \<lparr>sunrise = sr, sunset = InvalidDate, solarNoon = InvalidDate, moonrise = None,
     moonset = None, moonIllumination = 0,
     sunPosition = \<lparr>altitude = 0, azimuth = 0\<rparr>,
     moonPosition = \<lparr>altitude = 0, azimuth = 0, parallacticAngle = 0\<rparr>\<rparr>"

text \<open>
  The program started with an empty store on 2024-09-20: the location arrives, then the
  snapshot of the day (sunrise 05:28:40Z), and the alarm button is pressed at 05:29:30Z.
\<close>

definition armedApp :: App where
  "armedApp =
    run utcHost (initApp utcHost Map.empty)
      [Located london, Snapshot (snapshotWith (ValidDate 1726810120000)),
       SetSunriseAlarm 1726810170000]"

text \<open>
  The same morning with the button pressed at 05:27:30Z, before the sunrise: the alarm is
  armed for 05:28:40Z of that day and rings on the tick of 05:28:00Z.
\<close>

definition ringingApp :: App where
  "ringingApp =
    run utcHost (initApp utcHost Map.empty)
      [Located london, Snapshot (snapshotWith (ValidDate 1726810120000)),
       SetSunriseAlarm 1726810050000, Tick (ValidDate 1726810080000)]"

text \<open>
  The polar host on 2024-05-18, the last day with a sunrise (00:40:00Z): the button is
  pressed at 00:30:00Z, and the alarm rings on the tick of 00:40:00Z.
\<close>

definition polarApp :: App where
  "polarApp =
    run polarHost (initApp polarHost Map.empty)
      [Located tromso, Snapshot (snapshotWith (ValidDate 1715992800000))]"

definition polarRingingApp :: App where
  "polarRingingApp =
    run polarHost polarApp [SetSunriseAlarm 1715992200000, Tick (ValidDate 1715992800000)]"


section \<open>Properties of the moon phase\<close>

lemmas moon_defs = getMoonPhase_def daysSinceKnownNewMoon_def js_rem_def js_trunc_def
  LUNAR_MONTH_def KNOWN_NEW_MOON_def Let_def

text \<open>The remainder of a dividend that is not negative lies in \<open>[0, d)\<close>.\<close>

lemma js_rem_nonneg:
  assumes "0 \<le> n" "0 < d"
  shows "0 \<le> js_rem n d \<and> js_rem n d < d"
proof -
  define q where "q = \<lfloor>n / d\<rfloor>"
  have "0 \<le> n / d" using assms by simp
  then have t: "js_trunc (n / d) = q" by (simp add: js_trunc_def q_def)
  have "of_int q \<le> n / d" unfolding q_def by (rule of_int_floor_le)
  then have lo: "d * of_int q \<le> n" using assms by (simp add: field_simps)
  have "n / d < of_int q + 1" unfolding q_def by (rule real_of_int_floor_add_one_gt)
  then have hi: "n < d * of_int q + d" using assms by (simp add: field_simps)
  from lo hi show ?thesis unfolding js_rem_def t by simp
qed

text \<open>The remainder of a negative dividend lies in \<open>(-d, 0]\<close>: it is never positive.\<close>

lemma js_rem_neg:
  assumes "n < 0" "0 < d"
  shows "- d < js_rem n d \<and> js_rem n d \<le> 0"
proof -
  define q where "q = \<lceil>n / d\<rceil>"
  have "n / d < 0" using assms by (simp add: divide_neg_pos)
  then have t: "js_trunc (n / d) = q" by (simp add: js_trunc_def q_def)
  have "n / d \<le> of_int q" unfolding q_def by (rule le_of_int_ceiling)
  then have hi: "n \<le> d * of_int q" using assms by (simp add: field_simps)
  have "of_int q - 1 < n / d" unfolding q_def using ceiling_correct [of "n / d"] by simp
  then have lo: "d * of_int q - d < n" using assms by (simp add: field_simps)
  from lo hi show ?thesis unfolding js_rem_def t by simp
qed

text \<open>
  From the reference new moon onwards the age lies in \<open>[0, LUNAR_MONTH)\<close> and the
  fraction in \<open>[0, 1)\<close>.
\<close>

lemma getMoonPhase_range_from_epoch:
  assumes "KNOWN_NEW_MOON \<le> t"
  shows "0 \<le> age (getMoonPhase t) \<and> age (getMoonPhase t) < LUNAR_MONTH
       \<and> 0 \<le> fraction (getMoonPhase t) \<and> fraction (getMoonPhase t) < 1"
proof -
  have d: "0 \<le> daysSinceKnownNewMoon t" using assms by (simp add: daysSinceKnownNewMoon_def)
  have L: "0 < LUNAR_MONTH" by (simp add: LUNAR_MONTH_def)
  from js_rem_nonneg [OF d L] L show ?thesis by (simp add: getMoonPhase_def Let_def)
qed

text \<open>
  Before the reference new moon neither the age nor the fraction is ever positive, and
  the phase reported is the new moon on every such day.
\<close>

lemma getMoonPhase_before_epoch:
  assumes "t < KNOWN_NEW_MOON"
  shows "age (getMoonPhase t) \<le> 0 \<and> fraction (getMoonPhase t) \<le> 0
       \<and> phase (getMoonPhase t) = NewMoon"
proof -
  have d: "daysSinceKnownNewMoon t < 0" using assms by (simp add: daysSinceKnownNewMoon_def)
  have L: "0 < LUNAR_MONTH" by (simp add: LUNAR_MONTH_def)
  from js_rem_neg [OF d L] L have a: "js_rem (daysSinceKnownNewMoon t) LUNAR_MONTH \<le> 0" by simp
  with L have f: "js_rem (daysSinceKnownNewMoon t) LUNAR_MONTH / LUNAR_MONTH \<le> 0"
    by (simp add: divide_le_0_iff)
  have "(0::real) < 0.03" by simp
  with f have "js_rem (daysSinceKnownNewMoon t) LUNAR_MONTH / LUNAR_MONTH < 0.03"
    by (rule le_less_trans)
  then have "phaseOfFraction (js_rem (daysSinceKnownNewMoon t) LUNAR_MONTH / LUNAR_MONTH) = NewMoon"
    unfolding phaseOfFraction_def by (rule if_P [OF disjI1])
  with a f show ?thesis by (simp add: getMoonPhase_def Let_def)
qed

text \<open>
  C1. The claim: for every instant, also one before the reference new moon of
  2000-01-06T18:14:00Z, \<^verbatim>\<open>getMoonPhase\<close> returns an age in \<open>[0, LUNAR_MONTH)\<close> and a
  fraction in \<open>[0, 1)\<close>, the age never being negative. The code takes the remainder with
  \<^verbatim>\<open>%\<close>, which keeps the sign of the dividend. At 2000-01-01T00:00:00Z (time value
  946684800000), 5 days 18 hours and 14 minutes before the reference new moon, the age is
  \<open>-4147/720\<close> days (about \<open>-5.76\<close>), the fraction is negative as well, and the phase
  reported is the new moon.
\<close>

theorem getMoonPhase_negative_age:
  "getMoonPhase 946684800000
     = \<lparr>phase = NewMoon, age = - (4147 / 720), fraction = - (51837500000 / 265775299677)\<rparr>
   \<and> age (getMoonPhase 946684800000) < 0
   \<and> fraction (getMoonPhase 946684800000) < 0"
  by (simp add: moon_defs phaseOfFraction_def)

text \<open>
  C2. For every instant \<open>t\<close> the phase is the step function of the fraction with the
  fixed boundaries of the table: new moon on \<open>[0, .03)\<close> and \<open>[.97, 1)\<close>, waxing crescent
  on \<open>[.03, .23)\<close>, first quarter on \<open>[.23, .27)\<close>, waxing gibbous on \<open>[.27, .48)\<close>, full
  moon on \<open>[.48, .52)\<close>, waning gibbous on \<open>[.52, .73)\<close>, third quarter on \<open>[.73, .77)\<close>,
  waning crescent on \<open>[.77, .97)\<close>. The instant of the reference new moon gives the new
  moon with age 0, and the fraction 0.50 is classified as the full moon.
\<close>

theorem getMoonPhase_step_function:
  assumes "f = fraction (getMoonPhase t)" and "p = phase (getMoonPhase t)"
  shows "(0 \<le> f \<and> f < 0.03 \<or> 0.97 \<le> f \<and> f < 1 \<longrightarrow> p = NewMoon)
     \<and> (0.03 \<le> f \<and> f < 0.23 \<longrightarrow> p = WaxingCrescent)
     \<and> (0.23 \<le> f \<and> f < 0.27 \<longrightarrow> p = FirstQuarter)
     \<and> (0.27 \<le> f \<and> f < 0.48 \<longrightarrow> p = WaxingGibbous)
     \<and> (0.48 \<le> f \<and> f < 0.52 \<longrightarrow> p = FullMoon)
     \<and> (0.52 \<le> f \<and> f < 0.73 \<longrightarrow> p = WaningGibbous)
     \<and> (0.73 \<le> f \<and> f < 0.77 \<longrightarrow> p = ThirdQuarter)
     \<and> (0.77 \<le> f \<and> f < 0.97 \<longrightarrow> p = WaningCrescent)
     \<and> getMoonPhase KNOWN_NEW_MOON = \<lparr>phase = NewMoon, age = 0, fraction = 0\<rparr>
     \<and> phaseOfFraction 0.5 = FullMoon"
proof -
  have pf: "p = phaseOfFraction f"
    using assms by (simp add: getMoonPhase_def Let_def)
  have e: "getMoonPhase KNOWN_NEW_MOON = \<lparr>phase = NewMoon, age = 0, fraction = 0\<rparr>"
    by (simp add: moon_defs phaseOfFraction_def)
  have h: "phaseOfFraction 0.5 = FullMoon" by (simp add: phaseOfFraction_def)
  have bands: "(0 \<le> f \<and> f < 0.03 \<or> 0.97 \<le> f \<and> f < 1 \<longrightarrow> phaseOfFraction f = NewMoon)
     \<and> (0.03 \<le> f \<and> f < 0.23 \<longrightarrow> phaseOfFraction f = WaxingCrescent)
     \<and> (0.23 \<le> f \<and> f < 0.27 \<longrightarrow> phaseOfFraction f = FirstQuarter)
     \<and> (0.27 \<le> f \<and> f < 0.48 \<longrightarrow> phaseOfFraction f = WaxingGibbous)
     \<and> (0.48 \<le> f \<and> f < 0.52 \<longrightarrow> phaseOfFraction f = FullMoon)
     \<and> (0.52 \<le> f \<and> f < 0.73 \<longrightarrow> phaseOfFraction f = WaningGibbous)
     \<and> (0.73 \<le> f \<and> f < 0.77 \<longrightarrow> phaseOfFraction f = ThirdQuarter)
     \<and> (0.77 \<le> f \<and> f < 0.97 \<longrightarrow> phaseOfFraction f = WaningCrescent)"
    unfolding phaseOfFraction_def by auto
  from bands e h show ?thesis unfolding pf by blast
qed

text \<open>
  The table at nine instants of the first cycle, one in each band: half a day, and 3, 7,
  10, 15, 18, 22, 25 and 29 days after the reference new moon.
\<close>

theorem getMoonPhase_step_function_witness:
  "(0 \<le> fraction (getMoonPhase (KNOWN_NEW_MOON + 43200000)) \<and> fraction (getMoonPhase (KNOWN_NEW_MOON + 43200000)) < 0.03
     \<and> phase (getMoonPhase (KNOWN_NEW_MOON + 43200000)) = NewMoon)
 \<and> (0.03 \<le> fraction (getMoonPhase (KNOWN_NEW_MOON + 3 * 86400000)) \<and> fraction (getMoonPhase (KNOWN_NEW_MOON + 3 * 86400000)) < 0.23
     \<and> phase (getMoonPhase (KNOWN_NEW_MOON + 3 * 86400000)) = WaxingCrescent)
 \<and> (0.23 \<le> fraction (getMoonPhase (KNOWN_NEW_MOON + 7 * 86400000)) \<and> fraction (getMoonPhase (KNOWN_NEW_MOON + 7 * 86400000)) < 0.27
     \<and> phase (getMoonPhase (KNOWN_NEW_MOON + 7 * 86400000)) = FirstQuarter)
 \<and> (0.27 \<le> fraction (getMoonPhase (KNOWN_NEW_MOON + 10 * 86400000)) \<and> fraction (getMoonPhase (KNOWN_NEW_MOON + 10 * 86400000)) < 0.48
     \<and> phase (getMoonPhase (KNOWN_NEW_MOON + 10 * 86400000)) = WaxingGibbous)
 \<and> (0.48 \<le> fraction (getMoonPhase (KNOWN_NEW_MOON + 15 * 86400000)) \<and> fraction (getMoonPhase (KNOWN_NEW_MOON + 15 * 86400000)) < 0.52
     \<and> phase (getMoonPhase (KNOWN_NEW_MOON + 15 * 86400000)) = FullMoon)
 \<and> (0.52 \<le> fraction (getMoonPhase (KNOWN_NEW_MOON + 18 * 86400000)) \<and> fraction (getMoonPhase (KNOWN_NEW_MOON + 18 * 86400000)) < 0.73
     \<and> phase (getMoonPhase (KNOWN_NEW_MOON + 18 * 86400000)) = WaningGibbous)
 \<and> (0.73 \<le> fraction (getMoonPhase (KNOWN_NEW_MOON + 22 * 86400000)) \<and> fraction (getMoonPhase (KNOWN_NEW_MOON + 22 * 86400000)) < 0.77
     \<and> phase (getMoonPhase (KNOWN_NEW_MOON + 22 * 86400000)) = ThirdQuarter)
 \<and> (0.77 \<le> fraction (getMoonPhase (KNOWN_NEW_MOON + 25 * 86400000)) \<and> fraction (getMoonPhase (KNOWN_NEW_MOON + 25 * 86400000)) < 0.97
     \<and> phase (getMoonPhase (KNOWN_NEW_MOON + 25 * 86400000)) = WaningCrescent)
 \<and> (0.97 \<le> fraction (getMoonPhase (KNOWN_NEW_MOON + 29 * 86400000)) \<and> fraction (getMoonPhase (KNOWN_NEW_MOON + 29 * 86400000)) < 1
     \<and> phase (getMoonPhase (KNOWN_NEW_MOON + 29 * 86400000)) = NewMoon)"
proof -
  have f:
    "fraction (getMoonPhase (KNOWN_NEW_MOON + 43200000)) = 500000000 / 29530588853"
    "fraction (getMoonPhase (KNOWN_NEW_MOON + 3 * 86400000)) = 3000000000 / 29530588853"
    "fraction (getMoonPhase (KNOWN_NEW_MOON + 7 * 86400000)) = 7000000000 / 29530588853"
    "fraction (getMoonPhase (KNOWN_NEW_MOON + 10 * 86400000)) = 10000000000 / 29530588853"
    "fraction (getMoonPhase (KNOWN_NEW_MOON + 15 * 86400000)) = 15000000000 / 29530588853"
    "fraction (getMoonPhase (KNOWN_NEW_MOON + 18 * 86400000)) = 18000000000 / 29530588853"
    "fraction (getMoonPhase (KNOWN_NEW_MOON + 22 * 86400000)) = 22000000000 / 29530588853"
    "fraction (getMoonPhase (KNOWN_NEW_MOON + 25 * 86400000)) = 25000000000 / 29530588853"
    "fraction (getMoonPhase (KNOWN_NEW_MOON + 29 * 86400000)) = 29000000000 / 29530588853"
    by (simp_all add: moon_defs)
  show ?thesis
    using getMoonPhase_step_function [OF refl refl, of "KNOWN_NEW_MOON + 43200000"]
      getMoonPhase_step_function [OF refl refl, of "KNOWN_NEW_MOON + 3 * 86400000"]
      getMoonPhase_step_function [OF refl refl, of "KNOWN_NEW_MOON + 7 * 86400000"]
      getMoonPhase_step_function [OF refl refl, of "KNOWN_NEW_MOON + 10 * 86400000"]
      getMoonPhase_step_function [OF refl refl, of "KNOWN_NEW_MOON + 15 * 86400000"]
      getMoonPhase_step_function [OF refl refl, of "KNOWN_NEW_MOON + 18 * 86400000"]
      getMoonPhase_step_function [OF refl refl, of "KNOWN_NEW_MOON + 22 * 86400000"]
      getMoonPhase_step_function [OF refl refl, of "KNOWN_NEW_MOON + 25 * 86400000"]
      getMoonPhase_step_function [OF refl refl, of "KNOWN_NEW_MOON + 29 * 86400000"]
    unfolding f by simp
qed


section \<open>Properties of the alarm\<close>

lemmas host_defs = utcHost_def polarHost_def isoOf_def autumnSunrise_def polarSunrise_def
  london_def tromso_def snapshotWith_def
lemmas date_defs = getHours_def getMinutes_def getSeconds_def tomorrowOf_def newDate_def
  toISOString_def timeMatches_def
lemmas app_defs = initApp_def initialAlarmTime_def alarmEffect_def playAlarmSound_def
  stopAlarmSound_def persistAlarm_def setSunriseAlarm_def clearAlarm_def dismissAlarm_def
  alarmState_def
lemmas fixture_defs = armedApp_def ringingApp_def polarApp_def polarRingingApp_def
lemmas all_defs = fixture_defs host_defs date_defs app_defs Let_def

subsection \<open>Ringing ends only by dismissal\<close>

text \<open>
  While the flag is set the effect does nothing, and neither arming nor clearing touches
  the flag: only \<^verbatim>\<open>dismissAlarm\<close> resets it.
\<close>

lemma alarmEffect_ringing: "isAlarmRinging s \<Longrightarrow> alarmEffect h now s = s"
  by (simp add: alarmEffect_def split: option.splits)

lemma isAlarmRinging_persistAlarm:
  "isAlarmRinging (settle (persistAlarm h d s)) = isAlarmRinging s"
  by (simp add: persistAlarm_def split: option.splits)

lemma isAlarmRinging_setSunriseAlarm:
  "isAlarmRinging (settle (setSunriseAlarm h clock s)) = isAlarmRinging s"
  by (simp add: setSunriseAlarm_def Let_def isAlarmRinging_persistAlarm split: option.splits)

lemma isAlarmRinging_clearAlarm: "isAlarmRinging (clearAlarm s) = isAlarmRinging s"
  by (simp add: clearAlarm_def)

lemma step_keeps_ringing:
  assumes "isAlarmRinging s" "\<not> isDismiss e"
  shows "isAlarmRinging (step h s e)"
  using assms
  by (cases e) (simp_all add: alarmEffect_ringing isAlarmRinging_setSunriseAlarm
      isAlarmRinging_clearAlarm)

lemma fires_rings: "fires h s e \<Longrightarrow> isAlarmRinging (step h s e)"
  by (cases e) simp_all

lemma ringCount_ringing:
  "isAlarmRinging s \<Longrightarrow> \<forall>e\<in>set es. \<not> isDismiss e \<Longrightarrow> ringCount h s es = 0"
proof (induction es arbitrary: s)
  case Nil
  show ?case by simp
next
  case (Cons e es)
  have nf: "\<not> fires h s e" using Cons.prems(1) by (cases e) simp_all
  from Cons.prems have rest: "\<forall>e\<in>set es. \<not> isDismiss e" and e: "\<not> isDismiss e" by simp_all
  from Cons.prems(1) e have "isAlarmRinging (step h s e)" by (rule step_keeps_ringing)
  then have "ringCount h (step h s e) es = 0" using rest by (rule Cons.IH)
  with nf show ?case by simp
qed

lemma ringCount_le_one:
  "\<forall>e\<in>set es. \<not> isDismiss e \<Longrightarrow> ringCount h s es \<le> 1"
proof (induction es arbitrary: s)
  case Nil
  show ?case by simp
next
  case (Cons e es)
  show ?case
  proof (cases "fires h s e")
    case True
    then have "isAlarmRinging (step h s e)" by (rule fires_rings)
    moreover from Cons.prems have "\<forall>e\<in>set es. \<not> isDismiss e" by simp
    ultimately have "ringCount h (step h s e) es = 0" by (rule ringCount_ringing)
    with True show ?thesis by simp
  next
    case False
    from Cons.prems have "\<forall>e\<in>set es. \<not> isDismiss e" by simp
    then have "ringCount h (step h s e) es \<le> 1" by (rule Cons.IH)
    with False show ?thesis by simp
  qed
qed

text \<open>
  A tick either starts the tone or changes nothing, and the tone is started on exactly
  the ticks that set the ringing flag.
\<close>

lemma alarmEffect_no_fire: "\<not> fires h s (Tick now) \<Longrightarrow> alarmEffect h now s = s"
  by (auto simp: alarmEffect_def playAlarmSound_def split: option.splits if_splits)

lemma fires_starts_tone:
  "fires h s e \<Longrightarrow> oscillator (step h s e) \<and> audioContext (step h s e)"
  by (cases e) (auto simp: alarmEffect_def playAlarmSound_def split: option.splits if_splits)

lemma timeMatches_valid:
  "timeMatches h (ValidDate n) (ValidDate g) \<longleftrightarrow>
     (localTime h n div 3600000) mod 24 = (localTime h g div 3600000) mod 24
     \<and> (localTime h n div 60000) mod 60 = (localTime h g div 60000) mod 60
     \<and> (localTime h n div 1000) mod 60 = 0"
  by (simp add: timeMatches_def getHours_def getMinutes_def getSeconds_def)

lemma timeMatches_invalid:
  "\<not> timeMatches h InvalidDate a" "\<not> timeMatches h now InvalidDate"
  by (simp_all add: timeMatches_def getHours_def)

lemma alarmEffect_armed:
  assumes "alarmState s = Armed target"
  shows "alarmEffect h now s =
    (if timeMatches h now target
     then s\<lparr>isAlarmRinging := True, audioContext := True, oscillator := True\<rparr> else s)"
    and "fires h s (Tick now) = timeMatches h now target"
proof -
  from assms have t: "alarmTime s = Some target" and r: "\<not> isAlarmRinging s"
    by (auto simp: alarmState_def split: if_splits option.splits)
  show "alarmEffect h now s =
    (if timeMatches h now target
     then s\<lparr>isAlarmRinging := True, audioContext := True, oscillator := True\<rparr> else s)"
    using t r by (simp add: alarmEffect_def playAlarmSound_def)
  then show "fires h s (Tick now) = timeMatches h now target"
    using r by simp
qed

text \<open>
  C3. While the alarm is armed with a target and not ringing, a tick makes it ring and
  starts the tone exactly when the hour of the local wall clock at the time of the tick is
  that of the target, the minute is that of the target, and the second is 0; on any other
  tick nothing changes, and an invalid time or target never matches. A tick rings only by
  starting the tone, and a tick that does not ring changes nothing. In a run with no
  dismissal (ticks, arming, clearing, new locations and snapshots in any order, from any
  state) the alarm starts ringing at most once, so it never rings twice without a
  dismissal in between.
\<close>

theorem alarm_tick_rings_once:
  "(alarmState s = Armed (ValidDate g) \<longrightarrow>
      ((localTime h n div 3600000) mod 24 = (localTime h g div 3600000) mod 24
         \<and> (localTime h n div 60000) mod 60 = (localTime h g div 60000) mod 60
         \<and> (localTime h n div 1000) mod 60 = 0 \<longrightarrow>
       fires h s (Tick (ValidDate n))
       \<and> alarmEffect h (ValidDate n) s
           = s\<lparr>isAlarmRinging := True, audioContext := True, oscillator := True\<rparr>
       \<and> alarmState (alarmEffect h (ValidDate n) s) = Ringing)
      \<and> (\<not> ((localTime h n div 3600000) mod 24 = (localTime h g div 3600000) mod 24
            \<and> (localTime h n div 60000) mod 60 = (localTime h g div 60000) mod 60
            \<and> (localTime h n div 1000) mod 60 = 0) \<longrightarrow>
         \<not> fires h s (Tick (ValidDate n)) \<and> alarmEffect h (ValidDate n) s = s))
   \<and> (alarmState s = Armed target \<and> (target = InvalidDate \<or> now = InvalidDate) \<longrightarrow>
        \<not> fires h s (Tick now) \<and> alarmEffect h now s = s)
   \<and> (fires h s e \<longrightarrow> oscillator (step h s e) \<and> audioContext (step h s e))
   \<and> (\<not> fires h s (Tick now) \<longrightarrow> alarmEffect h now s = s)
   \<and> ((\<forall>e\<in>set es. \<not> isDismiss e) \<longrightarrow> ringCount h s es \<le> 1)"
proof -
  define c where "c \<longleftrightarrow>
      (localTime h n div 3600000) mod 24 = (localTime h g div 3600000) mod 24
      \<and> (localTime h n div 60000) mod 60 = (localTime h g div 60000) mod 60
      \<and> (localTime h n div 1000) mod 60 = 0"
  have tm: "timeMatches h (ValidDate n) (ValidDate g) = c"
    unfolding c_def by (rule timeMatches_valid)
  have a: "alarmState s = Armed (ValidDate g) \<longrightarrow>
      (c \<longrightarrow>
       fires h s (Tick (ValidDate n))
       \<and> alarmEffect h (ValidDate n) s
           = s\<lparr>isAlarmRinging := True, audioContext := True, oscillator := True\<rparr>
       \<and> alarmState (alarmEffect h (ValidDate n) s) = Ringing)
      \<and> (\<not> c \<longrightarrow>
         \<not> fires h s (Tick (ValidDate n)) \<and> alarmEffect h (ValidDate n) s = s)"
  proof
    assume arm: "alarmState s = Armed (ValidDate g)"
    note e = alarmEffect_armed [OF arm, of h "ValidDate n", unfolded tm]
    show "(c \<longrightarrow>
       fires h s (Tick (ValidDate n))
       \<and> alarmEffect h (ValidDate n) s
           = s\<lparr>isAlarmRinging := True, audioContext := True, oscillator := True\<rparr>
       \<and> alarmState (alarmEffect h (ValidDate n) s) = Ringing)
      \<and> (\<not> c \<longrightarrow>
         \<not> fires h s (Tick (ValidDate n)) \<and> alarmEffect h (ValidDate n) s = s)"
    proof (cases c)
      case True
      with e show ?thesis by (simp add: alarmState_def)
    next
      case False
      with e show ?thesis by simp
    qed
  qed
  have b: "alarmState s = Armed target \<and> (target = InvalidDate \<or> now = InvalidDate) \<longrightarrow>
        \<not> fires h s (Tick now) \<and> alarmEffect h now s = s"
  proof
    assume p: "alarmState s = Armed target \<and> (target = InvalidDate \<or> now = InvalidDate)"
    then have "\<not> timeMatches h now target" using timeMatches_invalid by auto
    with alarmEffect_armed [of s target h now] p
    show "\<not> fires h s (Tick now) \<and> alarmEffect h now s = s" by simp
  qed
  have d: "fires h s e \<longrightarrow> oscillator (step h s e) \<and> audioContext (step h s e)"
    using fires_starts_tone by blast
  have f: "\<not> fires h s (Tick now) \<longrightarrow> alarmEffect h now s = s"
    using alarmEffect_no_fire by blast
  have r: "(\<forall>e\<in>set es. \<not> isDismiss e) \<longrightarrow> ringCount h s es \<le> 1"
    using ringCount_le_one by blast
  from a [unfolded c_def] b d f r show ?thesis by (intro conjI)
qed

text \<open>
  The alarm armed for 2024-09-21T05:30:10Z rings on the tick of 05:30:00Z of that day. It
  does not ring one second later, nor at 05:31:00Z, nor at 04:30:00Z, nor on an invalid
  time, and an alarm with an invalid target does not ring at 05:30:00Z. It rings once in
  a run that ticks three times at 05:30:00Z with a clearing and a new arming in between.
\<close>

theorem alarm_tick_rings_once_witness:
  "alarmState armedApp = Armed (ValidDate 1726896610000)
   \<and> fires utcHost armedApp (Tick (ValidDate 1726896600000))
   \<and> alarmEffect utcHost (ValidDate 1726896600000) armedApp
       = armedApp\<lparr>isAlarmRinging := True, audioContext := True, oscillator := True\<rparr>
   \<and> alarmState (alarmEffect utcHost (ValidDate 1726896600000) armedApp) = Ringing
   \<and> oscillator (step utcHost armedApp (Tick (ValidDate 1726896600000)))
   \<and> alarmEffect utcHost (ValidDate 1726896601000) armedApp = armedApp
   \<and> alarmEffect utcHost (ValidDate 1726896660000) armedApp = armedApp
   \<and> alarmEffect utcHost (ValidDate 1726893000000) armedApp = armedApp
   \<and> alarmEffect utcHost InvalidDate armedApp = armedApp
   \<and> alarmState (initApp utcHost [''sunriseAlarm'' \<mapsto> ''not a date'']) = Armed InvalidDate
   \<and> alarmEffect utcHost (ValidDate 1726896600000)
         (initApp utcHost [''sunriseAlarm'' \<mapsto> ''not a date''])
       = initApp utcHost [''sunriseAlarm'' \<mapsto> ''not a date'']
   \<and> ringCount utcHost armedApp
       [Tick (ValidDate 1726896599000), Tick (ValidDate 1726896600000),
        Tick (ValidDate 1726896600000), ClearAlarm, SetSunriseAlarm 1726896600500,
        Tick (ValidDate 1726896600000)] \<le> 1"
proof -
  have a: "alarmState armedApp = Armed (ValidDate 1726896610000)"
    by (simp add: all_defs)
  have b: "alarmState (initApp utcHost [''sunriseAlarm'' \<mapsto> ''not a date'']) = Armed InvalidDate"
    by (simp add: all_defs)
  have l: "localTime utcHost = id" by (simp add: utcHost_def)
  have d: "\<forall>e\<in>set [Tick (ValidDate 1726896599000), Tick (ValidDate 1726896600000),
        Tick (ValidDate 1726896600000), ClearAlarm, SetSunriseAlarm 1726896600500,
        Tick (ValidDate 1726896600000)]. \<not> isDismiss e"
    by simp
  have c1: "(localTime utcHost 1726896600000 div 3600000) mod 24 = (localTime utcHost 1726896610000 div 3600000) mod 24
      \<and> (localTime utcHost 1726896600000 div 60000) mod 60 = (localTime utcHost 1726896610000 div 60000) mod 60
      \<and> (localTime utcHost 1726896600000 div 1000) mod 60 = 0"
    by (simp add: l)
  note x1 = alarm_tick_rings_once [where s = armedApp and g = 1726896610000 and h = utcHost
      and n = 1726896600000, THEN conjunct1, THEN mp, OF a, THEN conjunct1, THEN mp, OF c1]
  from alarm_tick_rings_once [where s = armedApp and h = utcHost
      and e = "Tick (ValidDate 1726896600000)", THEN conjunct2, THEN conjunct2, THEN conjunct1] x1
  have x2: "oscillator (step utcHost armedApp (Tick (ValidDate 1726896600000)))"
    by blast
  have c3: "\<not> ((localTime utcHost 1726896601000 div 3600000) mod 24 = (localTime utcHost 1726896610000 div 3600000) mod 24
      \<and> (localTime utcHost 1726896601000 div 60000) mod 60 = (localTime utcHost 1726896610000 div 60000) mod 60
      \<and> (localTime utcHost 1726896601000 div 1000) mod 60 = 0)"
    by (simp add: l)
  note x3 = alarm_tick_rings_once [where s = armedApp and g = 1726896610000 and h = utcHost
      and n = 1726896601000, THEN conjunct1, THEN mp, OF a, THEN conjunct2, THEN mp, OF c3, THEN conjunct2]
  have c4: "\<not> ((localTime utcHost 1726896660000 div 3600000) mod 24 = (localTime utcHost 1726896610000 div 3600000) mod 24
      \<and> (localTime utcHost 1726896660000 div 60000) mod 60 = (localTime utcHost 1726896610000 div 60000) mod 60
      \<and> (localTime utcHost 1726896660000 div 1000) mod 60 = 0)"
    by (simp add: l)
  note x4 = alarm_tick_rings_once [where s = armedApp and g = 1726896610000 and h = utcHost
      and n = 1726896660000, THEN conjunct1, THEN mp, OF a, THEN conjunct2, THEN mp, OF c4, THEN conjunct2]
  have c5: "\<not> ((localTime utcHost 1726893000000 div 3600000) mod 24 = (localTime utcHost 1726896610000 div 3600000) mod 24
      \<and> (localTime utcHost 1726893000000 div 60000) mod 60 = (localTime utcHost 1726896610000 div 60000) mod 60
      \<and> (localTime utcHost 1726893000000 div 1000) mod 60 = 0)"
    by (simp add: l)
  note x5 = alarm_tick_rings_once [where s = armedApp and g = 1726896610000 and h = utcHost
      and n = 1726893000000, THEN conjunct1, THEN mp, OF a, THEN conjunct2, THEN mp, OF c5, THEN conjunct2]
  from alarm_tick_rings_once [where s = armedApp and target = "ValidDate 1726896610000"
      and now = InvalidDate and h = utcHost, THEN conjunct2, THEN conjunct1] a
  have x6: "alarmEffect utcHost InvalidDate armedApp = armedApp"
    by blast
  from alarm_tick_rings_once [where s = "initApp utcHost [''sunriseAlarm'' \<mapsto> ''not a date'']"
      and target = InvalidDate and now = "ValidDate 1726896600000" and h = utcHost,
      THEN conjunct2, THEN conjunct1] b
  have x7: "alarmEffect utcHost (ValidDate 1726896600000)
         (initApp utcHost [''sunriseAlarm'' \<mapsto> ''not a date''])
       = initApp utcHost [''sunriseAlarm'' \<mapsto> ''not a date'']"
    by blast
  note x8 = alarm_tick_rings_once [where s = armedApp and h = utcHost,
      THEN conjunct2, THEN conjunct2, THEN conjunct2, THEN conjunct2, THEN mp, OF d]
  from a x1 x2 x3 x4 x5 x6 b x7 x8 show ?thesis by blast
qed

subsection \<open>Arming\<close>

lemma persistAlarm_valid:
  "persistAlarm h (ValidDate t) s
     = Inr (s\<lparr>alarmTime := Some (ValidDate t),
              localStorage := (localStorage s)(''sunriseAlarm'' \<mapsto> toISO h t)\<rparr>)"
  by (simp add: persistAlarm_def toISOString_def)

lemma setSunriseAlarm_today:
  assumes "celestialInfo s = Some ci" and "sunrise ci = ValidDate t" and "clock \<le> t"
  shows "setSunriseAlarm h clock s
     = Inr (s\<lparr>alarmTime := Some (ValidDate t),
              localStorage := (localStorage s)(''sunriseAlarm'' \<mapsto> toISO h t)\<rparr>)"
  using assms by (simp add: setSunriseAlarm_def Let_def persistAlarm_valid)

lemma setSunriseAlarm_tomorrow:
  assumes "celestialInfo s = Some ci" and "sunrise ci = ValidDate t" and "t < clock"
    and "location s = Some loc"
    and "sunriseOf h (tomorrowOf h clock) (latitude loc) (longitude loc) = ValidDate u"
  shows "setSunriseAlarm h clock s
     = Inr (s\<lparr>alarmTime := Some (ValidDate u),
              localStorage := (localStorage s)(''sunriseAlarm'' \<mapsto> toISO h u)\<rparr>)"
  using assms by (simp add: setSunriseAlarm_def Let_def persistAlarm_valid)

lemma alarmState_armed:
  "\<not> isAlarmRinging s \<Longrightarrow> alarmState (s\<lparr>alarmTime := Some d, localStorage := m\<rparr>) = Armed d"
  by (simp add: alarmState_def)

text \<open>
  When the sunrise of the snapshot is a valid instant not before the current time, the
  alarm is armed with exactly that sunrise, which is written to the store; when it is
  before the current time and the sunrise the library gives for the next local day at the
  same location is a valid instant, the alarm is armed with that instant, written to the
  store. The code does not compare the latter with the current time.
\<close>

lemma setSunriseAlarm_target:
  assumes "celestialInfo s = Some ci" and "sunrise ci = ValidDate t"
    and "alarmState s \<noteq> Ringing"
  shows "(clock \<le> t \<longrightarrow>
            setSunriseAlarm h clock s
              = Inr (s\<lparr>alarmTime := Some (ValidDate t),
                       localStorage := (localStorage s)(''sunriseAlarm'' \<mapsto> toISO h t)\<rparr>)
            \<and> alarmState (settle (setSunriseAlarm h clock s)) = Armed (ValidDate t))
       \<and> (t < clock \<and> location s = Some loc
            \<and> sunriseOf h (tomorrowOf h clock) (latitude loc) (longitude loc) = ValidDate u \<longrightarrow>
            setSunriseAlarm h clock s
              = Inr (s\<lparr>alarmTime := Some (ValidDate u),
                       localStorage := (localStorage s)(''sunriseAlarm'' \<mapsto> toISO h u)\<rparr>)
            \<and> alarmState (settle (setSunriseAlarm h clock s)) = Armed (ValidDate u))"
proof -
  from assms(3) have r: "\<not> isAlarmRinging s" by (simp add: alarmState_def split: if_splits)
  show ?thesis
    using setSunriseAlarm_today [OF assms(1,2), of clock h]
      setSunriseAlarm_tomorrow [OF assms(1,2), of clock loc h u]
    by (simp add: alarmState_armed [OF r])
qed

text \<open>
  On the morning of 2024-09-20 in London (sunrise 05:28:40Z): pressed at 05:27:30Z the
  button arms the alarm for that sunrise; pressed at 05:29:30Z it arms it for the sunrise
  of the next day, 05:30:10Z.
\<close>

lemma setSunriseAlarm_target_example:
  "setSunriseAlarm utcHost 1726810050000
       (run utcHost (initApp utcHost Map.empty)
          [Located london, Snapshot (snapshotWith (ValidDate 1726810120000))])
     = Inr \<lparr>location = Some london,
            celestialInfo = Some (snapshotWith (ValidDate 1726810120000)),
            alarmTime = Some (ValidDate 1726810120000), isAlarmRinging = False,
            localStorage = [''sunriseAlarm'' \<mapsto> ''2024-09-20T05:28:40.000Z''],
            audioContext = False, oscillator = False\<rparr>
   \<and> setSunriseAlarm utcHost 1726810170000
       (run utcHost (initApp utcHost Map.empty)
          [Located london, Snapshot (snapshotWith (ValidDate 1726810120000))])
     = Inr \<lparr>location = Some london,
            celestialInfo = Some (snapshotWith (ValidDate 1726810120000)),
            alarmTime = Some (ValidDate 1726896610000), isAlarmRinging = False,
            localStorage = [''sunriseAlarm'' \<mapsto> ''2024-09-21T05:30:10.000Z''],
            audioContext = False, oscillator = False\<rparr>"
proof -
  define s where "s = run utcHost (initApp utcHost Map.empty)
          [Located london, Snapshot (snapshotWith (ValidDate 1726810120000))]"
  have s: "s = \<lparr>location = Some london,
            celestialInfo = Some (snapshotWith (ValidDate 1726810120000)),
            alarmTime = None, isAlarmRinging = False,
            localStorage = Map.empty, audioContext = False, oscillator = False\<rparr>"
    by (simp add: s_def initApp_def initialAlarmTime_def)
  have c: "celestialInfo s = Some (snapshotWith (ValidDate 1726810120000))"
    and l: "location s = Some london"
    and n: "alarmState s \<noteq> Ringing"
    by (simp_all add: s alarmState_def)
  have r: "sunrise (snapshotWith (ValidDate 1726810120000)) = ValidDate 1726810120000"
    by (simp add: snapshotWith_def)
  have p: "sunriseOf utcHost (tomorrowOf utcHost 1726810170000) (latitude london)
             (longitude london) = ValidDate 1726896610000"
    by (simp add: host_defs date_defs Let_def)
  have i: "toISO utcHost 1726810120000 = ''2024-09-20T05:28:40.000Z''"
    "toISO utcHost 1726896610000 = ''2024-09-21T05:30:10.000Z''"
    by (simp_all add: utcHost_def isoOf_def)
  from setSunriseAlarm_target [OF c r n, of 1726810050000 utcHost london 0]
  have a: "setSunriseAlarm utcHost 1726810050000 s
      = Inr (s\<lparr>alarmTime := Some (ValidDate 1726810120000),
               localStorage := (localStorage s)(''sunriseAlarm'' \<mapsto> toISO utcHost 1726810120000)\<rparr>)"
    by simp
  from setSunriseAlarm_target [OF c r n, of 1726810170000 utcHost london 1726896610000] l p
  have b: "setSunriseAlarm utcHost 1726810170000 s
      = Inr (s\<lparr>alarmTime := Some (ValidDate 1726896610000),
               localStorage := (localStorage s)(''sunriseAlarm'' \<mapsto> toISO utcHost 1726896610000)\<rparr>)"
    by simp
  show ?thesis unfolding s_def [symmetric] a b i by (simp add: s)
qed

text \<open>
  C4. The claim: armed when the sunrise of the snapshot is already past, the alarm takes
  the sunrise of the next day as its target, a target strictly greater than the current
  time, and the target is persisted. At a polar latitude on 2024-05-18, the last day on
  which the sun rises (at 00:40:00Z), the button is pressed at 06:00:00Z. The sunrise of
  the snapshot is past and the library has no sunrise for the next day: the handler sets
  the alarm time to an invalid date, which is not greater than the current time, and
  then throws a RangeError while printing it, so nothing is written to the store.
\<close>

theorem setSunriseAlarm_no_next_sunrise:
  "celestialInfo polarApp = Some (snapshotWith (ValidDate 1715992800000))
   \<and> location polarApp = Some tromso
   \<and> date_lt (sunrise (snapshotWith (ValidDate 1715992800000))) (ValidDate 1716012000000)
   \<and> setSunriseAlarm polarHost 1716012000000 polarApp
       = Inl (RangeError, polarApp\<lparr>alarmTime := Some InvalidDate\<rparr>)
   \<and> alarmState (settle (setSunriseAlarm polarHost 1716012000000 polarApp)) = Armed InvalidDate
   \<and> \<not> date_lt (ValidDate 1716012000000) InvalidDate
   \<and> localStorage (settle (setSunriseAlarm polarHost 1716012000000 polarApp)) ''sunriseAlarm''
       = None"
  by (simp add: all_defs)

subsection \<open>Dismissing\<close>

text \<open>Whatever the state, a dismissal resets the ringing flag.\<close>

lemma dismissAlarm_resets_flag: "\<not> isAlarmRinging (settle (dismissAlarm h clock s))"
  by (simp add: dismissAlarm_def isAlarmRinging_setSunriseAlarm stopAlarmSound_def)

lemma dismissAlarm_prepared:
  assumes "celestialInfo s = Some ci"
  shows "celestialInfo (stopAlarmSound (s\<lparr>isAlarmRinging := False\<rparr>)) = Some ci"
    and "location (stopAlarmSound (s\<lparr>isAlarmRinging := False\<rparr>)) = location s"
    and "localStorage (stopAlarmSound (s\<lparr>isAlarmRinging := False\<rparr>)) = localStorage s"
    and "\<not> isAlarmRinging (stopAlarmSound (s\<lparr>isAlarmRinging := False\<rparr>))"
    and "audioContext s \<longrightarrow> \<not> oscillator (stopAlarmSound (s\<lparr>isAlarmRinging := False\<rparr>))"
  using assms by (simp_all add: stopAlarmSound_def)

text \<open>
  The alarm rings at second 0 of the minute of its target. Dismissed from then up to the
  sunrise of the snapshot, it is armed with that sunrise once more.
\<close>

lemma dismissAlarm_before_sunrise:
  assumes "celestialInfo s = Some ci" and "sunrise ci = ValidDate t" and "clock \<le> t"
  shows "\<exists>s'. dismissAlarm h clock s = Inr s' \<and> alarmState s' = Armed (ValidDate t)"
proof -
  note p = dismissAlarm_prepared [OF assms(1)]
  have "alarmState (stopAlarmSound (s\<lparr>isAlarmRinging := False\<rparr>)
      \<lparr>alarmTime := Some (ValidDate t),
       localStorage := (localStorage s)(''sunriseAlarm'' \<mapsto> toISO h t)\<rparr>) = Armed (ValidDate t)"
    using p(4) by (rule alarmState_armed)
  then show ?thesis
    unfolding dismissAlarm_def
    using setSunriseAlarm_today [OF p(1) assms(2,3), of h] by (simp add: p(3))
qed

text \<open>
  Dismissed after the sunrise of the snapshot, with a valid sunrise from the library for
  the next local day at the same location, the ringing alarm is armed with that instant,
  which is written to the store, and the tone is stopped.
\<close>

lemma dismissAlarm_after_sunrise:
  assumes "alarmState s = Ringing" and "celestialInfo s = Some ci"
    and "sunrise ci = ValidDate t" and "t < clock" and "location s = Some loc"
    and "sunriseOf h (tomorrowOf h clock) (latitude loc) (longitude loc) = ValidDate u"
  shows "\<exists>s'. dismissAlarm h clock s = Inr s'
             \<and> alarmState s' = Armed (ValidDate u)
             \<and> localStorage s' ''sunriseAlarm'' = Some (toISO h u)
             \<and> (audioContext s \<longrightarrow> \<not> oscillator s')"
proof -
  note p = dismissAlarm_prepared [OF assms(2)]
  have l: "location (stopAlarmSound (s\<lparr>isAlarmRinging := False\<rparr>)) = Some loc"
    using p(2) assms(5) by simp
  have a: "alarmState (stopAlarmSound (s\<lparr>isAlarmRinging := False\<rparr>)
      \<lparr>alarmTime := Some (ValidDate u),
       localStorage := (localStorage s)(''sunriseAlarm'' \<mapsto> toISO h u)\<rparr>) = Armed (ValidDate u)"
    using p(4) by (rule alarmState_armed)
  show ?thesis
    unfolding dismissAlarm_def
    using setSunriseAlarm_tomorrow [OF p(1) assms(3,4) l assms(6)] a p(5)
    by (simp add: p(3))
qed

text \<open>
  The alarm that rang at 05:28:00Z on 2024-09-20 (sunrise 05:28:40Z), dismissed at
  05:31:00Z, is armed for the sunrise of the next day, 05:30:10Z, and the tone is off.
\<close>

lemma dismissAlarm_after_sunrise_example:
  "alarmState ringingApp = Ringing
   \<and> alarmState (settle (dismissAlarm utcHost 1726810260000 ringingApp))
       = Armed (ValidDate 1726896610000)
   \<and> localStorage (settle (dismissAlarm utcHost 1726810260000 ringingApp)) ''sunriseAlarm''
       = Some ''2024-09-21T05:30:10.000Z''
   \<and> \<not> oscillator (settle (dismissAlarm utcHost 1726810260000 ringingApp))"
proof -
  have a: "alarmState ringingApp = Ringing"
    and c: "celestialInfo ringingApp = Some (snapshotWith (ValidDate 1726810120000))"
    and l: "location ringingApp = Some london"
    and x: "audioContext ringingApp"
    by (simp_all add: all_defs)
  have r: "sunrise (snapshotWith (ValidDate 1726810120000)) = ValidDate 1726810120000"
    by (simp add: snapshotWith_def)
  have t: "(1726810120000::int) < 1726810260000" by simp
  have p: "sunriseOf utcHost (tomorrowOf utcHost 1726810260000) (latitude london)
             (longitude london) = ValidDate 1726896610000"
    by (simp add: host_defs date_defs Let_def)
  have i: "toISO utcHost 1726896610000 = ''2024-09-21T05:30:10.000Z''"
    by (simp add: utcHost_def isoOf_def)
  from dismissAlarm_after_sunrise [OF a c r t l p] x i
  have "alarmState (settle (dismissAlarm utcHost 1726810260000 ringingApp))
       = Armed (ValidDate 1726896610000)
     \<and> localStorage (settle (dismissAlarm utcHost 1726810260000 ringingApp)) ''sunriseAlarm''
       = Some ''2024-09-21T05:30:10.000Z''
     \<and> \<not> oscillator (settle (dismissAlarm utcHost 1726810260000 ringingApp))"
    by auto
  with a show ?thesis by simp
qed

text \<open>
  C5. The claim: from the ringing state a dismissal stops the tone and always arms the
  alarm again for the sunrise of the next day, a target strictly greater than the instant
  of dismissal. The alarm of 2024-09-20 (sunrise 05:28:40Z, the sunrise of the next day
  05:30:10Z) rang at 05:28:00Z. Dismissed at 05:28:10Z it is armed with the sunrise of
  the same day, the target it had, not with that of the next day. Dismissed in the very
  millisecond of the sunrise, 05:28:40.000Z, it is armed with a target equal to the
  instant of dismissal, not greater. Dismissed within the second in which it rang, it is
  rung again by the next run of the effect at the same time. And at the polar latitude
  the alarm that rang at 00:40:00Z on the last day with a sunrise, dismissed a minute
  later, gets an invalid date as its target, and the handler throws.
\<close>

theorem dismissAlarm_not_next_day:
  "alarmState ringingApp = Ringing
   \<and> alarmTime ringingApp = Some (ValidDate 1726810120000)
   \<and> sunriseOf utcHost (tomorrowOf utcHost 1726810090000) (latitude london) (longitude london)
       = ValidDate 1726896610000
   \<and> alarmState (settle (dismissAlarm utcHost 1726810090000 ringingApp))
       = Armed (ValidDate 1726810120000)
   \<and> alarmState (settle (dismissAlarm utcHost 1726810120000 ringingApp))
       = Armed (ValidDate 1726810120000)
   \<and> \<not> date_lt (ValidDate 1726810120000) (ValidDate 1726810120000)
   \<and> fires utcHost (settle (dismissAlarm utcHost 1726810080500 ringingApp))
         (Tick (ValidDate 1726810080000))
   \<and> alarmState polarRingingApp = Ringing
   \<and> dismissAlarm polarHost 1715992860000 polarRingingApp
       = Inl (RangeError,
              polarRingingApp\<lparr>isAlarmRinging := False, oscillator := False,
                               alarmTime := Some InvalidDate\<rparr>)
   \<and> \<not> date_lt (ValidDate 1715992860000) InvalidDate"
  by (simp add: all_defs)

subsection \<open>Start-up\<close>

text \<open>
  C7, as amended. The claim has a malformed stored timestamp treated as no alarm. The
  initialiser builds a date from every stored string that is not empty and does not look
  at the result. What holds: start-up never throws (\<open>initApp\<close> has no failing branch);
  an absent key and an empty string give the unset state; a string the parser recognises
  gives the alarm armed with its instant; a string the parser rejects gives the alarm
  armed with an invalid date, on which no tick ever makes it ring.
\<close>

theorem startup_alarm:
  "(store ''sunriseAlarm'' = None \<longrightarrow> alarmState (initApp h store) = Unset)
   \<and> (store ''sunriseAlarm'' = Some [] \<longrightarrow> alarmState (initApp h store) = Unset)
   \<and> (store ''sunriseAlarm'' = Some str \<and> str \<noteq> [] \<and> dateParse h str = Some t \<longrightarrow>
        alarmState (initApp h store) = Armed (ValidDate t))
   \<and> (store ''sunriseAlarm'' = Some str \<and> str \<noteq> [] \<and> dateParse h str = None \<longrightarrow>
        alarmState (initApp h store) = Armed InvalidDate
        \<and> alarmEffect h now (initApp h store) = initApp h store)"
  by (simp add: initApp_def initialAlarmTime_def alarmState_def newDate_def alarmEffect_def
      timeMatches_def getHours_def)

text \<open>The four cases: no key, the empty string, a timestamp, and a string that is none.\<close>

theorem startup_alarm_witness:
  "alarmState (initApp utcHost Map.empty) = Unset
   \<and> alarmState (initApp utcHost [''sunriseAlarm'' \<mapsto> []]) = Unset
   \<and> alarmState (initApp utcHost [''sunriseAlarm'' \<mapsto> ''2024-09-21T05:30:10.000Z''])
       = Armed (ValidDate 1726896610000)
   \<and> alarmState (initApp utcHost [''sunriseAlarm'' \<mapsto> ''not a date'']) = Armed InvalidDate
   \<and> alarmEffect utcHost (ValidDate 1726896600000)
         (initApp utcHost [''sunriseAlarm'' \<mapsto> ''not a date''])
       = initApp utcHost [''sunriseAlarm'' \<mapsto> ''not a date'']"
proof -
  have p: "dateParse utcHost ''2024-09-21T05:30:10.000Z'' = Some 1726896610000"
    "dateParse utcHost ''not a date'' = None"
    by (simp_all add: utcHost_def)
  show ?thesis
    using p
      startup_alarm [of Map.empty utcHost "[]" 0 "InvalidDate"]
      startup_alarm [of "[''sunriseAlarm'' \<mapsto> []]" utcHost "[]" 0 "InvalidDate"]
      startup_alarm [of "[''sunriseAlarm'' \<mapsto> ''2024-09-21T05:30:10.000Z'']" utcHost
        "''2024-09-21T05:30:10.000Z''" 1726896610000 "InvalidDate"]
      startup_alarm [of "[''sunriseAlarm'' \<mapsto> ''not a date'']" utcHost
        "''not a date''" 0 "ValidDate 1726896600000"]
    by simp
qed

text \<open>
  Against the claim as stated: with \<^verbatim>\<open>not a date\<close> in the store, which the parser
  rejects, the program starts with an alarm time, not in the unset state.
\<close>

theorem startup_malformed_counterexample:
  "dateParse utcHost ''not a date'' = None
   \<and> alarmState (initApp utcHost [''sunriseAlarm'' \<mapsto> ''not a date'']) = Armed InvalidDate
   \<and> alarmState (initApp utcHost [''sunriseAlarm'' \<mapsto> ''not a date'']) \<noteq> Unset"
  by (simp add: all_defs)

subsection \<open>Clearing\<close>

text \<open>
  C9, as amended. The claim has \<^verbatim>\<open>clear\<close> lead to the unset state from the ringing
  state as well. The code resets the alarm time and removes the key, and leaves the
  ringing flag to the dismissal. What holds: from an armed alarm clearing leads to the
  unset state; after clearing there is no alarm time and no key in the store, whatever
  the state before; clearing an unset alarm with no key in the store changes nothing; and
  clearing twice is clearing once.
\<close>

theorem clearAlarm_unsets:
  "(alarmState s = Armed t \<longrightarrow> alarmState (clearAlarm s) = Unset)
   \<and> alarmTime (clearAlarm s) = None
   \<and> localStorage (clearAlarm s) ''sunriseAlarm'' = None
   \<and> (alarmState s = Unset \<and> localStorage s ''sunriseAlarm'' = None \<longrightarrow> clearAlarm s = s)
   \<and> clearAlarm (clearAlarm s) = clearAlarm s"
proof -
  have a: "alarmState s = Armed t \<longrightarrow> alarmState (clearAlarm s) = Unset"
    by (auto simp: alarmState_def clearAlarm_def split: if_splits)
  have b: "alarmState s = Unset \<and> localStorage s ''sunriseAlarm'' = None \<longrightarrow> clearAlarm s = s"
  proof
    assume h: "alarmState s = Unset \<and> localStorage s ''sunriseAlarm'' = None"
    then have "alarmTime s = None"
      by (auto simp: alarmState_def split: if_splits option.splits)
    moreover from h have "(localStorage s)(''sunriseAlarm'' := None) = localStorage s"
      by (simp add: fun_upd_idem)
    ultimately show "clearAlarm s = s" by (simp add: clearAlarm_def)
  qed
  from a b show ?thesis by (simp add: clearAlarm_def)
qed

text \<open>Clearing the armed alarm, and clearing at start-up with an empty store.\<close>

theorem clearAlarm_unsets_witness:
  "alarmState armedApp = Armed (ValidDate 1726896610000)
   \<and> alarmState (clearAlarm armedApp) = Unset
   \<and> localStorage (clearAlarm armedApp) ''sunriseAlarm'' = None
   \<and> alarmState (initApp utcHost Map.empty) = Unset
   \<and> clearAlarm (initApp utcHost Map.empty) = initApp utcHost Map.empty"
proof -
  have a: "alarmState armedApp = Armed (ValidDate 1726896610000)"
    by (simp add: all_defs)
  have u: "alarmState (initApp utcHost Map.empty) = Unset"
    "localStorage (initApp utcHost Map.empty) ''sunriseAlarm'' = None"
    by (simp_all add: initApp_def initialAlarmTime_def alarmState_def)
  from a u clearAlarm_unsets [of armedApp "ValidDate 1726896610000"]
    clearAlarm_unsets [of "initApp utcHost Map.empty" "InvalidDate"]
  show ?thesis by simp
qed

text \<open>
  Against the claim as stated: the alarm that rang at 05:28:00Z is still ringing after
  clearing, with the tone on.
\<close>

theorem clearAlarm_ringing_counterexample:
  "alarmState ringingApp = Ringing
   \<and> alarmState (clearAlarm ringingApp) = Ringing
   \<and> alarmState (clearAlarm ringingApp) \<noteq> Unset
   \<and> oscillator (clearAlarm ringingApp)"
  by (simp add: all_defs)

subsection \<open>Ringing before the target\<close>

text \<open>
  C10. The trigger compares the hour and the minute of the wall clock and the second 0,
  never the date, so an armed alarm whose target lies on a later day can ring before the
  target. On 2024-09-20 the button is pressed at 05:29:30Z, after the sunrise of the day;
  the alarm is armed for the sunrise of the next day, 2024-09-21T05:30:10Z, and it rings
  on the tick of 05:30:00Z of the same morning, a day before its target. The same happens
  when the program is started again in between and takes the target from the store.
\<close>

theorem alarm_rings_a_day_early:
  "alarmState armedApp = Armed (ValidDate 1726896610000)
   \<and> date_lt (ValidDate 1726810200000) (ValidDate 1726896610000)
   \<and> 1726896610000 div 86400000 = 1726810200000 div (86400000::int) + 1
   \<and> fires utcHost armedApp (Tick (ValidDate 1726810200000))
   \<and> alarmState (step utcHost armedApp (Tick (ValidDate 1726810200000))) = Ringing
   \<and> localStorage armedApp ''sunriseAlarm'' = Some ''2024-09-21T05:30:10.000Z''
   \<and> alarmState (initApp utcHost (localStorage armedApp)) = Armed (ValidDate 1726896610000)
   \<and> fires utcHost (initApp utcHost (localStorage armedApp)) (Tick (ValidDate 1726810200000))
   \<and> alarmState (step utcHost (initApp utcHost (localStorage armedApp))
        (Tick (ValidDate 1726810200000))) = Ringing"
  by (simp add: all_defs)


section \<open>Properties of the dial and the sky\<close>

text \<open>
  C6. For every altitude and azimuth of a snapshot, the angle on the dial is the azimuth
  in degrees plus 180 and the radial offset is \<open>(1 - sin altitude) * 50\<close>, for the sun and
  for the moon; the offset always lies in \<open>[0, 100]\<close> (it is 50 while there is no
  snapshot). At altitude \<open>\<pi>/2\<close> and azimuth 0 the offset is 0 and the angle 180; at
  altitude \<open>-\<pi>/2\<close> the offset is 100.
\<close>

theorem projection_formulas:
  "sunAngle (s\<lparr>celestialInfo := Some ci\<rparr>) = azimuth (sunPosition ci) * (180 / pi) + 180
   \<and> sunAltitudeOffset (s\<lparr>celestialInfo := Some ci\<rparr>)
       = (1 - sin (altitude (sunPosition ci))) * 50
   \<and> moonAngle (s\<lparr>celestialInfo := Some ci\<rparr>) = azimuth (moonPosition ci) * (180 / pi) + 180
   \<and> moonAltitudeOffset (s\<lparr>celestialInfo := Some ci\<rparr>)
       = (1 - sin (altitude (moonPosition ci))) * 50
   \<and> 0 \<le> sunAltitudeOffset s \<and> sunAltitudeOffset s \<le> 100
   \<and> 0 \<le> moonAltitudeOffset s \<and> moonAltitudeOffset s \<le> 100
   \<and> sunAltitudeOffset
        (s\<lparr>celestialInfo := Some (ci\<lparr>sunPosition := \<lparr>altitude = pi / 2, azimuth = 0\<rparr>\<rparr>)\<rparr>) = 0
   \<and> sunAngle
        (s\<lparr>celestialInfo := Some (ci\<lparr>sunPosition := \<lparr>altitude = pi / 2, azimuth = 0\<rparr>\<rparr>)\<rparr>) = 180
   \<and> sunAltitudeOffset
        (s\<lparr>celestialInfo := Some (ci\<lparr>sunPosition := \<lparr>altitude = - pi / 2, azimuth = 0\<rparr>\<rparr>)\<rparr>)
       = 100"
proof -
  have g: "0 \<le> (1 - y) * 50 \<and> (1 - y) * 50 \<le> 100" if "- 1 \<le> y" "y \<le> 1" for y :: real
    using that by simp
  have b: "0 \<le> (1 - sin x) * 50 \<and> (1 - sin x) * 50 \<le> 100" for x :: real
    by (rule g) simp_all
  have s: "0 \<le> sunAltitudeOffset s \<and> sunAltitudeOffset s \<le> 100"
    using b by (simp add: sunAltitudeOffset_def split: option.splits)
  have m: "0 \<le> moonAltitudeOffset s \<and> moonAltitudeOffset s \<le> 100"
    using b by (simp add: moonAltitudeOffset_def split: option.splits)
  from s m show ?thesis
    by (simp add: sunAngle_def sunAzimuthDegrees_def sunAltitudeOffset_def moonAngle_def
        moonAzimuthDegrees_def moonAltitudeOffset_def)
qed

text \<open>
  C8. The sky is classified by the altitude of the sun in degrees: the gradient of the
  day exactly when it is above 5, that of twilight exactly when it is in \<open>(-5, 5]\<close>, that
  of the night exactly when it is at most -5. An altitude of exactly 5 degrees is
  twilight and one of exactly -5 degrees is night.
\<close>

theorem getSkyGradient_classes:
  "(getSkyGradient a = ''from-sky-500 to-blue-700'') = (a * (180 / pi) > 5)
   \<and> (getSkyGradient a = ''from-indigo-300 via-orange-400 to-red-500'')
       = (- 5 < a * (180 / pi) \<and> a * (180 / pi) \<le> 5)
   \<and> (getSkyGradient a = ''from-gray-900 to-black'') = (a * (180 / pi) \<le> - 5)
   \<and> getSkyGradient (5 * (pi / 180)) = ''from-indigo-300 via-orange-400 to-red-500''
   \<and> getSkyGradient (- 5 * (pi / 180)) = ''from-gray-900 to-black''"
  by (simp add: getSkyGradient_def Let_def)

end
